theory Spec2Isabelle
  imports Main "HOL-Library.Sublist" "HOL-Library.AList"
begin

section \<open>JavaScript values\<close>

text \<open>
  The values that travel through the event pipeline of \<^verbatim>\<open>ESDB\<close> (event data, error
  payloads, event types). Numbers are the integers the code uses as versions.
\<close>

datatype jsval =
    JUndef
  | JNull
  | JBool bool
  | JNum int
  | JStr string
  | JArr "jsval list"
  | JObj "(string \<times> jsval) list"

text \<open>JavaScript truthiness, as \<^verbatim>\<open>if (x)\<close> and \<^verbatim>\<open>!x\<close> read it.\<close>

fun truthy :: "jsval \<Rightarrow> bool" where
  "truthy JUndef = False"
| "truthy JNull = False"
| "truthy (JBool b) = b"
| "truthy (JNum n) = (n \<noteq> 0)"
| "truthy (JStr s) = (s \<noteq> [])"
| "truthy (JArr xs) = True"
| "truthy (JObj kvs) = True"

text \<open>Property read \<^verbatim>\<open>x[k]\<close> on an object; a missing key reads \<^verbatim>\<open>undefined\<close>.\<close>

fun get_prop :: "jsval \<Rightarrow> string \<Rightarrow> jsval" where
  "get_prop (JObj kvs) k = (case map_of kvs k of Some x \<Rightarrow> x | None \<Rightarrow> JUndef)"
| "get_prop x k = JUndef"

text \<open>Decimal text of a number, as a template literal \<^verbatim>\<open>`${n}`\<close> prints an integer.\<close>

definition digit_char :: "nat \<Rightarrow> char" where
  "digit_char d = ''0123456789'' ! d"

function show_nat :: "nat \<Rightarrow> string" where
  "show_nat n = (if n < 10 then [digit_char n] else show_nat (n div 10) @ [digit_char (n mod 10)])"
  by pat_completeness auto
termination
  by (relation "measure (\<lambda>n. n)") auto

declare show_nat.simps [simp del]

definition show_int :: "int \<Rightarrow> string" where
  "show_int i = (if i < 0 then CHR ''-'' # show_nat (nat (- i)) else show_nat (nat i))"

text \<open>A number that may be \<^verbatim>\<open>undefined\<close>, printed by a template literal.\<close>

definition show_num :: "int option \<Rightarrow> string" where
  "show_num n = (case n of None \<Rightarrow> ''undefined'' | Some i \<Rightarrow> show_int i)"

text \<open>
  Object spread \<^verbatim>\<open>{...x}\<close>: the own enumerable properties of \<open>x\<close>. \<^verbatim>\<open>undefined\<close>,
  \<^verbatim>\<open>null\<close>, booleans and numbers have none; a string or an array spreads its
  indices.
\<close>

fun spread :: "jsval \<Rightarrow> (string \<times> jsval) list" where
  "spread (JObj kvs) = kvs"
| "spread (JArr xs) = map (\<lambda>i. (show_nat i, xs ! i)) [0..<length xs]"
| "spread (JStr s) = map (\<lambda>i. (show_nat i, JStr [s ! i])) [0..<length s]"
| "spread x = []"

text \<open>Object literal update \<^verbatim>\<open>{...o, k: x}\<close> on a list of properties with unique keys.\<close>

definition obj_set :: "(string \<times> 'a) list \<Rightarrow> string \<Rightarrow> 'a \<Rightarrow> (string \<times> 'a) list" where
  "obj_set kvs k x =
     (if k \<in> fst ` set kvs then map (\<lambda>(k', y). if k' = k then (k', x) else (k', y)) kvs
      else kvs @ [(k, x)])"

text \<open>\<^verbatim>\<open>delete o[k]\<close>.\<close>

definition obj_delete :: "(string \<times> 'a) list \<Rightarrow> string \<Rightarrow> (string \<times> 'a) list" where
  "obj_delete kvs k = filter (\<lambda>(k', y). k' \<noteq> k) kvs"

section \<open>Documents, changes and events\<close>

text \<open>
  A row of a model table. The metadata table holds one row, \<^verbatim>\<open>{id: 'version', v}\<close>;
  \<open>doc_v\<close> is the row's \<^verbatim>\<open>v\<close> field (\<open>None\<close> when the row has none).
\<close>

record doc =
  doc_id :: string
  doc_v :: "int option"
  doc_fields :: "(string \<times> jsval) list"

text \<open>
  What a reducer returns for its model (the model contract of the event store):
  a change description \<^verbatim>\<open>{set?, ins?, upd?, rm?, ...}\<close>, possibly carrying \<^verbatim>\<open>error\<close>,
  or \<^verbatim>\<open>false\<close>, or the model object itself (both meaning no change).
\<close>

record change =
  ch_error :: jsval
  ch_set :: "doc list"
  ch_other :: "(string \<times> jsval) list"

datatype rout = RFalse | RModel | RChange change

definition empty_change :: change where
  "empty_change = \<lparr>ch_error = JUndef, ch_set = [], ch_other = []\<rparr>"

text \<open>\<^verbatim>\<open>r.error\<close> and the truthiness of a reducer output \<open>r\<close>.\<close>

fun rout_error :: "rout \<Rightarrow> jsval" where
  "rout_error (RChange c) = ch_error c"
| "rout_error r = JUndef"

fun rout_truthy :: "rout \<Rightarrow> bool" where
  "rout_truthy RFalse = False"
| "rout_truthy r = True"

text \<open>
  An event \<^verbatim>\<open>{v, type, ts, data, error?, result?}\<close>. \<open>ev_v = None\<close> is an event
  without \<^verbatim>\<open>v\<close>; \<open>ev_error = JUndef\<close> an event without \<^verbatim>\<open>error\<close>;
  \<open>ev_result = None\<close> an event without \<^verbatim>\<open>result\<close>. The result maps model names
  to reducer outputs, in key order.
\<close>

record event =
  ev_v :: "int option"
  ev_type :: jsval
  ev_ts :: jsval
  ev_data :: jsval
  ev_error :: jsval
  ev_result :: "(string \<times> rout) list option"

text \<open>A model table: rows by id. \<^verbatim>\<open>model.get(id)\<close> is the lookup.\<close>

type_synonym model = "string \<Rightarrow> doc option"

type_synonym store = "string \<Rightarrow> model option"

section \<open>The built-in metadata model\<close>

text \<open>
  \<^verbatim>\<open>metadata.reducer(model, {v = 0})\<close>: without a model it returns \<^verbatim>\<open>{}\<close>; otherwise it
  reads the row \<^verbatim>\<open>version\<close> (\<^verbatim>\<open>-1\<close> when there is none) and writes the event's version
  when it is greater, else returns an error.
\<close>

definition version_doc :: "int \<Rightarrow> doc" where
  "version_doc n = \<lparr>doc_id = ''version'', doc_v = Some n, doc_fields = []\<rparr>"

definition set_version :: "int \<Rightarrow> rout" where
  "set_version n = RChange (empty_change\<lparr>ch_set := [version_doc n]\<rparr>)"

definition version_error :: "int option \<Rightarrow> int \<Rightarrow> rout" where
  "version_error currV n =
     RChange (empty_change\<lparr>ch_error :=
       JObj [(''message'',
              JStr (''Current version '' @ show_num currV @ '' is >= event version '' @ show_int n))]\<rparr>)"

definition metadata_reducer :: "model option \<Rightarrow> event \<Rightarrow> rout" where
  "metadata_reducer model ev =
     (let n = (case ev_v ev of None \<Rightarrow> 0 | Some n \<Rightarrow> n) in
      case model of
        None \<Rightarrow> RChange empty_change
      | Some m \<Rightarrow>
          (let currV = (case m ''version'' of Some currVDoc \<Rightarrow> doc_v currVDoc | None \<Rightarrow> Some (- 1)) in
           if (case currV of Some c \<Rightarrow> n > c | None \<Rightarrow> False)
           then set_version n
           else version_error currV n))"

section \<open>Models, preprocessors and reducers\<close>

text \<open>
  A value thrown or a promise rejected: a \<^verbatim>\<open>TypeError\<close> raised by the runtime
  (reading a property of \<^verbatim>\<open>undefined\<close>, calling what is not a function), or any
  value thrown by a collaborator (a user hook, the database).
\<close>

datatype err = TypeError | Thrown jsval

text \<open>
  The hooks of one registered model. A reducer gets \<^verbatim>\<open>(model, event)\<close>. A
  preprocessor gets \<^verbatim>\<open>{event, model, store}\<close>; it may change the event object it is
  given and may return a new event: its result is the event object as the call left it
  and the returned value (\<open>None\<close> for a falsy return), or the value it threw.
  \<open>md_deriver\<close> says whether the model has a deriver.
\<close>

record model_def =
  md_reducer :: "(model option \<Rightarrow> event \<Rightarrow> rout) option"
  md_preprocessor ::
    "(event \<Rightarrow> model option \<Rightarrow> store \<Rightarrow> jsval + event \<times> event option) option"
  md_deriver :: bool

text \<open>
  What the constructor is given and what the process environment decides:
  the user's models in the order of \<^verbatim>\<open>Object.keys(models)\<close>, whether
  \<^verbatim>\<open>NODE_ENV\<close> is \<^verbatim>\<open>test\<close>, whether an \<^verbatim>\<open>error\<close> listener is registered, and which
  calls into the database and the derivers reject (\<open>Some x\<close>: rejects with \<open>x\<close>).
  \<open>listener_fault name event\<close> says whether a listener registered for \<open>name\<close> throws
  when it is called with \<open>event\<close> (\<^verbatim>\<open>emit\<close> calls the listeners synchronously, so what
  one throws leaves \<^verbatim>\<open>emit\<close>), and \<open>sweep_get_fault v\<close> whether the read \<^verbatim>\<open>queue.get(v)\<close>
  made for a swept waiter rejects.
\<close>

record config =
  user_models :: "(string \<times> model_def) list"
  node_env_test :: bool
  error_listener :: bool
  queue_set_fault :: "event \<Rightarrow> jsval option"
  apply_fault :: "string \<Rightarrow> rout option \<Rightarrow> jsval option"
  deriver_fault :: "string \<Rightarrow> event \<Rightarrow> jsval option"
  listener_fault :: "string \<Rightarrow> event \<Rightarrow> jsval option"
  sweep_get_fault :: "int \<Rightarrow> jsval option"

definition metadata_model :: model_def where
  "metadata_model =
     \<lparr>md_reducer = Some metadata_reducer, md_preprocessor = None, md_deriver = False\<rparr>"

text \<open>\<^verbatim>\<open>this.models = {...models, metadata}\<close> and the name lists the constructor builds.\<close>

definition models :: "config \<Rightarrow> (string \<times> model_def) list" where
  "models cfg = user_models cfg @ [(''metadata'', metadata_model)]"

definition modelNames :: "config \<Rightarrow> string list" where
  "modelNames cfg = map fst (models cfg)"

definition reducerNames :: "config \<Rightarrow> string list" where
  "reducerNames cfg = map fst (filter (\<lambda>(name, d). md_reducer d \<noteq> None) (models cfg))"

definition deriverNames :: "config \<Rightarrow> string list" where
  "deriverNames cfg = map fst (filter (\<lambda>(name, d). md_deriver d) (models cfg))"

definition preprocNames :: "config \<Rightarrow> string list" where
  "preprocNames cfg = map fst (filter (\<lambda>(name, d). md_preprocessor d \<noteq> None) (models cfg))"

text \<open>
  The constructor refuses a user model named \<^verbatim>\<open>metadata\<close>, and the keys of the
  \<^verbatim>\<open>models\<close> object are distinct.
\<close>

definition valid_config :: "config \<Rightarrow> bool" where
  "valid_config cfg =
     (distinct (map fst (user_models cfg)) \<and> ''metadata'' \<notin> set (map fst (user_models cfg)))"

subsection \<open>The preprocessor loop\<close>

text \<open>
  One turn of the loop of \<^verbatim>\<open>ESDB.preprocessor\<close>: either the loop returns (\<open>Stop\<close>)
  or it goes on with an event (\<open>Continue\<close>).
\<close>

datatype pp_step = Stop event | Continue event

definition preprocess_error :: "string \<Rightarrow> string \<Rightarrow> jsval" where
  "preprocess_error name what =
     JObj [(''_preprocess'', JObj [(''message'', JStr (name @ '': preprocessor must '' @ what))])]"

text \<open>
  \<^verbatim>\<open>{...event, v, type, error}\<close>: \<open>event'\<close> is the event object as the preprocessor left
  it, and \<^verbatim>\<open>v\<close> and \<^verbatim>\<open>type\<close> were read from the event before the call.
\<close>

definition error_event :: "event \<Rightarrow> event \<Rightarrow> jsval \<Rightarrow> event" where
  "error_event event' event error =
     event'\<lparr>ev_v := ev_v event, ev_type := ev_type event, ev_error := error\<rparr>"

definition preprocess_with :: "config \<Rightarrow> store \<Rightarrow> string \<Rightarrow> event \<Rightarrow> err + pp_step" where
  "preprocess_with cfg st name event =
     (case Option.bind (map_of (models cfg) name) md_preprocessor of
        None \<Rightarrow> Inl TypeError
      | Some pp \<Rightarrow>
          (case pp event (st name) st of
             Inl x \<Rightarrow> Inl (Thrown x)
           | Inr (event', None) \<Rightarrow> Inr (Continue event')
           | Inr (event', Some newEvent) \<Rightarrow>
               if truthy (ev_error newEvent) then
                 Inr (Stop (error_event event' event (JObj [(name, ev_error newEvent)])))
               else if ev_v newEvent \<noteq> ev_v event then
                 Inr (Stop (error_event event' event (preprocess_error name ''retain event version'')))
               else if \<not> truthy (ev_type newEvent) then
                 Inr (Stop (error_event event' event (preprocess_error name ''return event type'')))
               else Inr (Continue newEvent)))"

fun preprocessor :: "config \<Rightarrow> store \<Rightarrow> string list \<Rightarrow> event \<Rightarrow> err + event" where
  "preprocessor cfg st [] event = Inr event"
| "preprocessor cfg st (name # names) event =
     (case preprocess_with cfg st name event of
        Inl e \<Rightarrow> Inl e
      | Inr (Stop event') \<Rightarrow> Inr event'
      | Inr (Continue event') \<Rightarrow> preprocessor cfg st names event')"

text \<open>
  The event the loop holds after the preprocessors \<open>names\<close> have all run without
  stopping it (\<open>None\<close> when one of them stopped it or threw).
\<close>

fun continues :: "config \<Rightarrow> store \<Rightarrow> string list \<Rightarrow> event \<Rightarrow> event option" where
  "continues cfg st [] event = Some event"
| "continues cfg st (name # names) event =
     (case preprocess_with cfg st name event of
        Inr (Continue event') \<Rightarrow> continues cfg st names event'
      | _ \<Rightarrow> None)"

subsection \<open>The composed reducer\<close>

text \<open>
  Modelled from the spec: \<^verbatim>\<open>combineReducers\<close> of \<^verbatim>\<open>./async-redux\<close>, which is not among
  the sources. All reducers run on \<^verbatim>\<open>(reducerModels[name], event)\<close>; the output maps
  each reducer's name to what it returned (a reducer that rejected is represented by a
  change carrying \<^verbatim>\<open>error\<close>).
\<close>

definition modelReducer :: "config \<Rightarrow> store \<Rightarrow> event \<Rightarrow> (string \<times> rout) list" where
  "modelReducer cfg st event =
     List.map_filter
       (\<lambda>(name, d). map_option (\<lambda>r. (name, r (st name) event)) (md_reducer d))
       (models cfg)"

text \<open>
  \<^verbatim>\<open>this.reducerNames.some(n => result[n].error)\<close> and the loop that collects the
  errors: both read \<^verbatim>\<open>result[name].error\<close>, a \<^verbatim>\<open>TypeError\<close> when \<^verbatim>\<open>result[name]\<close> is
  missing.
\<close>

fun hasError :: "string list \<Rightarrow> (string \<times> rout) list \<Rightarrow> err + bool" where
  "hasError [] result = Inr False"
| "hasError (n # ns) result =
     (case map_of result n of
        None \<Rightarrow> Inl TypeError
      | Some r \<Rightarrow> if truthy (rout_error r) then Inr True else hasError ns result)"

fun collect_errors :: "string list \<Rightarrow> (string \<times> rout) list \<Rightarrow> err + (string \<times> jsval) list" where
  "collect_errors [] result = Inr []"
| "collect_errors (name # names) result =
     (case map_of result name of
        None \<Rightarrow> Inl TypeError
      | Some r \<Rightarrow>
          (case collect_errors names result of
             Inl e \<Rightarrow> Inl e
           | Inr error \<Rightarrow>
               Inr (if truthy (rout_error r) then (name, rout_error r) # error else error)))"

text \<open>
  The loop that drops the entries without a change: \<^verbatim>\<open>r === false\<close> or
  \<^verbatim>\<open>r === this.store[name]\<close>.
\<close>

fun drop_unchanged :: "string list \<Rightarrow> (string \<times> rout) list \<Rightarrow> (string \<times> rout) list" where
  "drop_unchanged [] result = result"
| "drop_unchanged (name # names) result =
     drop_unchanged names
       (case map_of result name of
          Some RFalse \<Rightarrow> obj_delete result name
        | Some RModel \<Rightarrow> obj_delete result name
        | _ \<Rightarrow> result)"

text \<open>
  \<^verbatim>\<open>ESDB.reducer(state, event)\<close>. It runs inside \<^verbatim>\<open>db.withTransaction\<close>, which
  returns what its body returns and rethrows what it throws; the reducer itself writes
  nothing, so the transaction leaves the store as it was. The redux state argument is
  not read. \<open>metadata_only\<close> is the event returned when preprocessing failed:
  \<^verbatim>\<open>{...event, result: {metadata}}\<close>, with the output of the metadata reducer alone.
  (When a reducer returned an error, the result is \<^verbatim>\<open>{metadata: result.metadata}\<close>; the
  composed output always has the entry, since the metadata model has a reducer.)
\<close>

definition metadata_only :: "store \<Rightarrow> event \<Rightarrow> event" where
  "metadata_only st event =
     event\<lparr>ev_result := Some [(''metadata'', metadata_reducer (st ''metadata'') event)]\<rparr>"

definition reducer :: "config \<Rightarrow> store \<Rightarrow> event \<Rightarrow> err + event" where
  "reducer cfg st original =
     (case preprocessor cfg st (preprocNames cfg) original of
        Inl e \<Rightarrow> Inl e
      | Inr event \<Rightarrow>
          if truthy (ev_error event) then Inr (metadata_only st event)
          else
            (let result = modelReducer cfg st event in
             case hasError (reducerNames cfg) result of
               Inl e \<Rightarrow> Inl e
             | Inr True \<Rightarrow>
                 (case collect_errors (reducerNames cfg) result of
                    Inl e \<Rightarrow> Inl e
                  | Inr error \<Rightarrow>
                      Inr (event\<lparr>ev_result :=
                                   Some (case map_of result ''metadata'' of
                                           None \<Rightarrow> [] | Some r \<Rightarrow> [(''metadata'', r)]),
                                 ev_error := JObj error\<rparr>))
             | Inr False \<Rightarrow>
                 Inr (event\<lparr>ev_result := Some (drop_unchanged (reducerNames cfg) result)\<rparr>)))"

section \<open>The state of an ESDB instance\<close>

text \<open>
  A promise is pending, fulfilled with an event (or with \<^verbatim>\<open>undefined\<close>), or rejected
  with an event or with an error.
\<close>

datatype rejection = RejEvent event | RejErr err

datatype pstate = Pending | Fulfilled "event option" | Rejected rejection

text \<open>
  What the instance does to its collaborators, in the order of the calls:
  \<^verbatim>\<open>queue.set(event)\<close>, \<^verbatim>\<open>store[name].applyChanges(r)\<close>, a deriver call, the two
  \<^verbatim>\<open>console.error\<close> reports of a failed apply, the report of a failed polling loop,
  \<^verbatim>\<open>this.emit(name, event)\<close>, and a call of \<^verbatim>\<open>_waitForEvent\<close>.
\<close>

datatype action =
    QueueSet event
  | ApplyChanges string "rout option"
  | Deriver string event
  | LogSevere err
  | LogApplyError err
  | LogPollError err
  | Emit string event
  | WaitForEvent

text \<open>
  The fields of the instance and the database behind it. \<open>queue\<close> holds the rows of
  the event queue in the order of their versions; \<open>waitingFor\<close> maps a version to the
  promise of its waiter (\<open>promises\<close> holds the state of every promise created so
  far); \<open>waitingP\<close> and \<open>applyingP\<close> say whether \<^verbatim>\<open>_waitingP\<close> and \<^verbatim>\<open>_applyingP\<close>
  hold a promise; \<open>redux_state\<close> is what \<^verbatim>\<open>redux.getState()\<close> returns. Each function
  below is one call run to its end: what other calls do between its awaits is not
  interleaved.
\<close>

record esdb =
  store :: store
  queue :: "event list"
  waitingFor :: "(int \<times> nat) list"
  promises :: "nat \<Rightarrow> pstate"
  next_promise :: nat
  maxWaitingFor :: int
  minVersion :: int
  isPolling :: bool
  waitingP :: bool
  applyingP :: bool
  reallyStop :: bool
  reduxInited :: bool
  redux_state :: "event option"
  trace :: "action list"

definition log_action :: "action \<Rightarrow> esdb \<Rightarrow> esdb" where
  "log_action a s = s\<lparr>trace := trace s @ [a]\<rparr>"

subsection \<open>The collaborators\<close>

text \<open>
  Modelled from the spec: the event queue (\<^verbatim>\<open>./EventQueue\<close> is not among the sources).
  \<^verbatim>\<open>get(v)\<close> fetches the row of a version; \<^verbatim>\<open>getNext(afterV, once)\<close> returns the next
  row with a greater version, and without one returns null when \<open>once\<close> holds and
  blocks otherwise; \<^verbatim>\<open>set(event)\<close> updates the result, error and type of the row of
  \<^verbatim>\<open>event.v\<close>; \<^verbatim>\<open>add\<close> appends a row with the next version. The writes and the hooks
  reject as the faults of the configuration say, and so does the read of the sweep,
  for which the code has a rejection handler; the reads that are awaited
  (\<^verbatim>\<open>getVersion\<close>, \<^verbatim>\<open>getNext\<close>, the \<^verbatim>\<open>get\<close> of \<^verbatim>\<open>handledVersion\<close>) succeed.
\<close>

definition queue_get :: "event list \<Rightarrow> int \<Rightarrow> event option" where
  "queue_get q n = find (\<lambda>row. ev_v row = Some n) q"

datatype next_event = Got event | NoEvent | Blocks

definition later_than :: "int option \<Rightarrow> event \<Rightarrow> bool" where
  "later_than afterV row = (case (ev_v row, afterV) of (Some n, Some a) \<Rightarrow> n > a | _ \<Rightarrow> False)"

definition queue_getNext :: "event list \<Rightarrow> int option \<Rightarrow> bool \<Rightarrow> next_event" where
  "queue_getNext q afterV once =
     (case find (later_than afterV) q of
        Some row \<Rightarrow> Got row
      | None \<Rightarrow> if once then NoEvent else Blocks)"

definition queue_set :: "event \<Rightarrow> event list \<Rightarrow> event list" where
  "queue_set event q =
     map (\<lambda>row. if ev_v row = ev_v event
                then row\<lparr>ev_type := ev_type event, ev_result := ev_result event,
                         ev_error := ev_error event\<rparr>
                else row) q"

definition queue_latest :: "event list \<Rightarrow> int" where
  "queue_latest q = fold (\<lambda>row n. case ev_v row of Some k \<Rightarrow> max k n | None \<Rightarrow> n) q 0"

definition queue_add :: "jsval \<Rightarrow> jsval \<Rightarrow> jsval \<Rightarrow> event list \<Rightarrow> event \<times> event list" where
  "queue_add ty data ts q =
     (let event = \<lparr>ev_v = Some (queue_latest q + 1), ev_type = ty, ev_ts = ts, ev_data = data,
                   ev_error = JUndef, ev_result = None\<rparr>
      in (event, q @ [event]))"

text \<open>
  Modelled from the spec: \<^verbatim>\<open>applyChanges(change)\<close> of a model table (\<^verbatim>\<open>./JsonModel\<close> is
  not among the sources). The rows of \<^verbatim>\<open>set\<close> are stored under their ids; this is how
  the metadata row \<^verbatim>\<open>{id: 'version', v}\<close> is written. The other kinds of change
  (\<^verbatim>\<open>ins\<close>, \<^verbatim>\<open>upd\<close>, \<^verbatim>\<open>rm\<close>) are kept in \<open>ch_other\<close> and not interpreted.
\<close>

definition applyChanges :: "rout option \<Rightarrow> model \<Rightarrow> model" where
  "applyChanges r m =
     (case r of
        Some (RChange c) \<Rightarrow> fold (\<lambda>d m'. m'(doc_id d \<mapsto> d)) (ch_set c) m
      | _ \<Rightarrow> m)"

text \<open>
  \<^verbatim>\<open>getVersion()\<close>: the \<^verbatim>\<open>v\<close> of the metadata row \<^verbatim>\<open>version\<close>, \<^verbatim>\<open>0\<close> without a row.
  (The cached promise \<^verbatim>\<open>getVersionP\<close> only merges reads that are in flight together.)
\<close>

definition getVersion :: "esdb \<Rightarrow> err + int option" where
  "getVersion s =
     (case store s ''metadata'' of
        None \<Rightarrow> Inl TypeError
      | Some m \<Rightarrow> Inr (case m ''version'' of Some vObj \<Rightarrow> doc_v vObj | None \<Rightarrow> Some 0))"

section \<open>Applying an event\<close>

text \<open>
  \<^verbatim>\<open>Promise.all(Object.entries(result).map(([name, r]) => r && store[name].applyChanges(r)))\<close>.
  The map calls \<^verbatim>\<open>applyChanges\<close> for every truthy entry in turn; a missing
  \<^verbatim>\<open>store[name]\<close> throws inside the map, so the later entries are not reached. A call
  that rejects writes nothing; the calls after it have been made all the same. The
  error is the \<^verbatim>\<open>TypeError\<close> of the map if there is one, else the first rejection.
\<close>

fun apply_results :: "config \<Rightarrow> (string \<times> rout) list \<Rightarrow> esdb \<Rightarrow> err option \<times> esdb" where
  "apply_results cfg [] s = (None, s)"
| "apply_results cfg ((name, r) # rest) s =
     (if \<not> rout_truthy r then apply_results cfg rest s
      else case store s name of
        None \<Rightarrow> (Some TypeError, s)
      | Some m \<Rightarrow>
          (let s1 = log_action (ApplyChanges name (Some r)) s in
           case apply_fault cfg name (Some r) of
             Some x \<Rightarrow>
               (case apply_results cfg rest s1 of
                  (Some TypeError, s2) \<Rightarrow> (Some TypeError, s2)
                | (_, s2) \<Rightarrow> (Some (Thrown x), s2))
           | None \<Rightarrow>
               apply_results cfg rest (s1\<lparr>store := (store s1)(name \<mapsto> applyChanges (Some r) m)\<rparr>)))"

text \<open>
  \<^verbatim>\<open>Promise.all(this.deriverNames.map(name => this.models[name].deriver({...})))\<close>:
  every deriver is called, with the event and its result; the first rejection is the
  error. What a deriver writes to its own tables is not part of this state.
\<close>

fun run_derivers :: "config \<Rightarrow> string list \<Rightarrow> event \<Rightarrow> esdb \<Rightarrow> err option \<times> esdb" where
  "run_derivers cfg [] event s = (None, s)"
| "run_derivers cfg (name # names) event s =
     (case run_derivers cfg names event (log_action (Deriver name event) s) of
        (e, s') \<Rightarrow>
          (case deriver_fault cfg name event of
             Some x \<Rightarrow> (Some (Thrown x), s')
           | None \<Rightarrow> (e, s')))"

text \<open>
  The \<^verbatim>\<open>try\<close> block of \<^verbatim>\<open>ESDB.applyEvent\<close>. It returns the error thrown (if any), the
  event object as the block left it (\<^verbatim>\<open>delete result.metadata\<close> changes the event's own
  result) and the new state.
\<close>

definition apply_steps :: "config \<Rightarrow> event \<Rightarrow> esdb \<Rightarrow> err option \<times> event \<times> esdb" where
  "apply_steps cfg event s =
     (case ev_result event of
        None \<Rightarrow> (Some TypeError, event, s)
      | Some result0 \<Rightarrow>
          (let metadata = map_of result0 ''metadata'';
               result = obj_delete result0 ''metadata'';
               event' = event\<lparr>ev_result := Some result\<rparr>;
               s1 = log_action (QueueSet event') s
           in case queue_set_fault cfg event' of
                Some x \<Rightarrow> (Some (Thrown x), event', s1)
              | None \<Rightarrow>
                  (case apply_results cfg result (s1\<lparr>queue := queue_set event' (queue s1)\<rparr>) of
                     (Some e, s3) \<Rightarrow> (Some e, event', s3)
                   | (None, s3) \<Rightarrow>
                       (case store s3 ''metadata'' of
                          None \<Rightarrow> (Some TypeError, event', s3)
                        | Some m \<Rightarrow>
                            (let s4 = log_action (ApplyChanges ''metadata'' metadata) s3 in
                             case apply_fault cfg ''metadata'' metadata of
                               Some x \<Rightarrow> (Some (Thrown x), event', s4)
                             | None \<Rightarrow>
                                 (case run_derivers cfg (deriverNames cfg) event'
                                         (s4\<lparr>store := (store s4)(''metadata'' \<mapsto> applyChanges metadata m)\<rparr>) of
                                    (e, s6) \<Rightarrow> (e, event', s6)))))))"

text \<open>
  \<^verbatim>\<open>ESDB.applyEvent\<close>: the \<^verbatim>\<open>catch\<close> reports the error as a severe database error
  (unless \<^verbatim>\<open>NODE_ENV\<close> is \<^verbatim>\<open>test\<close>) and throws it again.
\<close>

definition applyEvent :: "config \<Rightarrow> event \<Rightarrow> esdb \<Rightarrow> err option \<times> event \<times> esdb" where
  "applyEvent cfg event s =
     (case apply_steps cfg event s of
        (None, event', s') \<Rightarrow> (None, event', s')
      | (Some e, event', s') \<Rightarrow>
          (Some e, event', if node_env_test cfg then s' else log_action (LogSevere e) s'))"

section \<open>Waiters\<close>

text \<open>
  \<^verbatim>\<open>if (event.error) o.reject(event) else o.resolve(event)\<close> on the promise \<open>p\<close> of a
  waiter: \<open>outcome\<close> is what the promise settles to; a promise settles once.
\<close>

definition outcome :: "event \<Rightarrow> pstate" where
  "outcome event =
     (if truthy (ev_error event) then Rejected (RejEvent event) else Fulfilled (Some event))"

definition settle :: "nat \<Rightarrow> event \<Rightarrow> esdb \<Rightarrow> esdb" where
  "settle p event s =
     (if promises s p = Pending then s\<lparr>promises := (promises s)(p := outcome event)\<rparr> else s)"

text \<open>\<^verbatim>\<open>o.reject(err)\<close> on the promise \<open>p\<close> of a waiter.\<close>

definition reject_with :: "nat \<Rightarrow> err \<Rightarrow> esdb \<Rightarrow> esdb" where
  "reject_with p x s =
     (if promises s p = Pending then s\<lparr>promises := (promises s)(p := Rejected (RejErr x))\<rparr> else s)"

text \<open>
  The sweep of \<^verbatim>\<open>triggerWaitingEvent\<close>, for every waiter left:
  \<^verbatim>\<open>this.queue.get(v).then(event => ..., o.reject)\<close> and \<^verbatim>\<open>delete this._waitingFor[v]\<close>.
  The waiter is removed; it is rejected with the failure when the read rejects, and
  settled with the row when the read returns one. Without a row the callback throws on
  \<^verbatim>\<open>event.error\<close> and the waiter stays pending.
\<close>

fun sweep :: "config \<Rightarrow> (int \<times> nat) list \<Rightarrow> esdb \<Rightarrow> esdb" where
  "sweep cfg [] s = s"
| "sweep cfg ((n, p) # rest) s =
     sweep cfg rest
       (case sweep_get_fault cfg n of
          Some x \<Rightarrow> reject_with p (Thrown x) (s\<lparr>waitingFor := AList.delete n (waitingFor s)\<rparr>)
        | None \<Rightarrow>
            (case queue_get (queue s) n of
               None \<Rightarrow> s\<lparr>waitingFor := AList.delete n (waitingFor s)\<rparr>
             | Some event \<Rightarrow> settle p event (s\<lparr>waitingFor := AList.delete n (waitingFor s)\<rparr>)))"

text \<open>
  \<^verbatim>\<open>ESDB.triggerWaitingEvent(event)\<close>. An event without \<^verbatim>\<open>v\<close> finds no waiter, and
  \<^verbatim>\<open>undefined >= this._maxWaitingFor\<close> is false. The entries of the registry are swept
  in the order they are listed; each settles a promise of its own, so the order does not
  show in the state.
\<close>

definition triggerWaitingEvent :: "config \<Rightarrow> event \<Rightarrow> esdb \<Rightarrow> esdb" where
  "triggerWaitingEvent cfg event s =
     (case ev_v event of
        None \<Rightarrow> s
      | Some n \<Rightarrow>
          (let s1 = (case map_of (waitingFor s) n of
                       None \<Rightarrow> s
                     | Some p \<Rightarrow> settle p event (s\<lparr>waitingFor := AList.delete n (waitingFor s)\<rparr>))
           in if n \<ge> maxWaitingFor s1 then sweep cfg (waitingFor s1) s1 else s1))"

section \<open>Handling a reduced event\<close>

text \<open>
  \<^verbatim>\<open>this.emit(name, event)\<close> of the \<^verbatim>\<open>EventEmitter\<close> the instance is: the listeners of
  \<open>name\<close> are called synchronously, and what one of them throws is thrown by \<^verbatim>\<open>emit\<close>.
  (What else a listener does is its own business and not part of this state.)
\<close>

definition emit :: "config \<Rightarrow> string \<Rightarrow> event \<Rightarrow> esdb \<Rightarrow> err option \<times> esdb" where
  "emit cfg name event s =
     (map_option Thrown (listener_fault cfg name event), log_action (Emit name event) s)"

text \<open>
  What \<^verbatim>\<open>handleResult\<close> does between the apply phase and the waiters: the \<^verbatim>\<open>catch\<close> on
  \<^verbatim>\<open>applyEvent\<close> reports a failure and swallows it, \<^verbatim>\<open>_applyingP\<close> is emptied, and the
  event is emitted as \<^verbatim>\<open>error\<close> (with a listener only) or \<^verbatim>\<open>result\<close>, then as \<^verbatim>\<open>handled\<close>.
  A listener that throws ends it there: \<^verbatim>\<open>handled\<close> is not emitted after a failed
  \<^verbatim>\<open>error\<close> or \<^verbatim>\<open>result\<close>.
\<close>

definition after_apply :: "config \<Rightarrow> err option \<Rightarrow> event \<Rightarrow> esdb \<Rightarrow> err option \<times> esdb" where
  "after_apply cfg e event s1 =
     (let s2 = (case e of None \<Rightarrow> s1 | Some x \<Rightarrow> log_action (LogApplyError x) s1);
          s3 = s2\<lparr>applyingP := False\<rparr>
      in case (if truthy (ev_error event)
               then (if error_listener cfg then emit cfg ''error'' event s3 else (None, s3))
               else emit cfg ''result'' event s3) of
           (Some x, s4) \<Rightarrow> (Some x, s4)
         | (None, s4) \<Rightarrow> emit cfg ''handled'' event s4)"

text \<open>
  \<^verbatim>\<open>ESDB.handleResult\<close>, called with an event or (as the store's listener) without
  one. It returns the error its promise rejects with, if any: what a listener threw, in
  which case \<^verbatim>\<open>triggerWaitingEvent\<close> is not reached.
\<close>

definition handleResult :: "config \<Rightarrow> event option \<Rightarrow> esdb \<Rightarrow> err option \<times> esdb" where
  "handleResult cfg arg s =
     (case (case arg of Some e \<Rightarrow> Some e | None \<Rightarrow> redux_state s) of
        None \<Rightarrow> (Some TypeError, s)
      | Some event \<Rightarrow>
          if ev_v event = None \<or> ev_v event = Some 0 then (None, s)
          else
            (case applyEvent cfg event (s\<lparr>applyingP := True\<rparr>) of
               (e, event', s1) \<Rightarrow>
                 (case after_apply cfg e event' s1 of
                    (Some x, s5) \<Rightarrow> (Some x, s5)
                  | (None, s5) \<Rightarrow> (None, triggerWaitingEvent cfg event' s5))))"

section \<open>Polling\<close>

text \<open>
  The synchronous part of \<^verbatim>\<open>ESDB.startPolling(wantVersion)\<close> (\<open>0\<close> stands for a falsy
  argument). When \<^verbatim>\<open>_waitingP\<close> is empty it calls \<^verbatim>\<open>_waitForEvent\<close> and stores the
  promise chain \<open>poll_chain\<close> below. (The hot-reload hook is left out.)
\<close>

definition startPolling :: "int \<Rightarrow> esdb \<Rightarrow> esdb" where
  "startPolling wantVersion s =
     (let s1 = (if wantVersion \<noteq> 0
                then (if wantVersion > minVersion s then s\<lparr>minVersion := wantVersion\<rparr> else s)
                else if \<not> isPolling s then s\<lparr>isPolling := True\<rparr> else s)
      in if \<not> waitingP s1 then log_action WaitForEvent (s1\<lparr>waitingP := True\<rparr>) else s1)"

definition stopPolling :: "esdb \<Rightarrow> esdb" where
  "stopPolling s = s\<lparr>isPolling := False, reallyStop := True\<rparr>"

text \<open>
  What an asynchronous function hands back: a value, a rejection, or the promise of a
  registered waiter.
\<close>

datatype answer = Resolves "event option" | Rejects rejection | WaiterPromise nat

text \<open>\<^verbatim>\<open>ESDB.handledVersion(v)\<close>.\<close>

definition handledVersion :: "int \<Rightarrow> esdb \<Rightarrow> answer \<times> esdb" where
  "handledVersion n s =
     (if n = 0 then (Resolves None, s)
      else case getVersion s of
        Inl e \<Rightarrow> (Rejects (RejErr e), s)
      | Inr version \<Rightarrow>
          if (case version of Some c \<Rightarrow> n \<le> c | None \<Rightarrow> False) then
            (case queue_get (queue s) n of
               None \<Rightarrow> (Rejects (RejErr TypeError), s)
             | Some event \<Rightarrow>
                 if truthy (ev_error event) then (Rejects (RejEvent event), s)
                 else (Resolves (Some event), s))
          else
            (case map_of (waitingFor s) n of
               Some p \<Rightarrow> (WaiterPromise p, s)
             | None \<Rightarrow>
                 (let s1 = (if n > maxWaitingFor s then s\<lparr>maxWaitingFor := n\<rparr> else s);
                      p = next_promise s1;
                      s2 = s1\<lparr>waitingFor := waitingFor s1 @ [(n, p)],
                              promises := (promises s1)(p := Pending),
                              next_promise := Suc p\<rparr>
                  in (WaiterPromise p, startPolling n s2))))"

text \<open>\<^verbatim>\<open>ESDB.waitForQueue()\<close>.\<close>

definition waitForQueue :: "esdb \<Rightarrow> answer \<times> esdb" where
  "waitForQueue s = handledVersion (queue_latest (queue s)) s"

text \<open>\<^verbatim>\<open>ESDB.dispatch(type, data, ts)\<close>.\<close>

definition dispatch :: "jsval \<Rightarrow> jsval \<Rightarrow> jsval \<Rightarrow> esdb \<Rightarrow> answer \<times> esdb" where
  "dispatch ty data ts s =
     (case queue_add ty data ts (queue s) of
        (event, q) \<Rightarrow>
          (case ev_v event of
             None \<Rightarrow> (Rejects (RejErr TypeError), s\<lparr>queue := q\<rparr>)
           | Some n \<Rightarrow> handledVersion n (s\<lparr>queue := q\<rparr>)))"

text \<open>
  Modelled from the spec: \<^verbatim>\<open>redux.dispatch(event)\<close> of the store that \<^verbatim>\<open>createStore\<close>
  of \<^verbatim>\<open>./async-redux\<close> builds (not among the sources). It runs \<^verbatim>\<open>ESDB.reducer\<close> on the
  event, keeps what it returns as the state and calls the subscribed listener,
  \<^verbatim>\<open>handleResult\<close>, without an argument; when the reducer throws, the dispatch rejects.
  The dispatch does not wait for the promise the listener returns (the loop waits for
  \<^verbatim>\<open>_applyingP\<close> itself), so a rejection of \<^verbatim>\<open>handleResult\<close> does not reach the caller of
  the dispatch.
\<close>

definition redux_dispatch :: "config \<Rightarrow> event \<Rightarrow> esdb \<Rightarrow> err + esdb" where
  "redux_dispatch cfg event s =
     (case reducer cfg (store s) event of
        Inl e \<Rightarrow> Inl e
      | Inr event' \<Rightarrow> Inr (snd (handleResult cfg None (s\<lparr>redux_state := Some event'\<rparr>))))"

text \<open>\<^verbatim>\<open>{message: err.message, stack: err.stack}\<close> of a caught error.\<close>

fun err_info :: "err \<Rightarrow> jsval" where
  "err_info TypeError = JObj [(''message'', JStr ''TypeError''), (''stack'', JUndef)]"
| "err_info (Thrown x) = JObj [(''message'', get_prop x ''message''), (''stack'', get_prop x ''stack'')]"

text \<open>
  The loop \<^verbatim>\<open>ESDB._waitForEvent\<close>. It returns \<^verbatim>\<open>lastV\<close>, or \<^verbatim>\<open>undefined\<close> when it was
  told to stop (\<open>Returned None\<close>); it may throw (when the version cannot be read, or
  when the \<^verbatim>\<open>handleResult\<close> it awaits in its \<^verbatim>\<open>catch\<close> rejects), block in
  \<^verbatim>\<open>queue.getNext\<close> with no event pending, or run on: the first argument bounds the
  number of turns, and \<open>OutOfFuel\<close> says that the bound was reached.
\<close>

datatype loop_out = Returned "int option" | Threw err | Blocked | OutOfFuel

fun waitForEvent :: "nat \<Rightarrow> config \<Rightarrow> int option \<Rightarrow> esdb \<Rightarrow> loop_out \<times> esdb" where
  "waitForEvent 0 cfg lastV s = (OutOfFuel, s)"
| "waitForEvent (Suc fuel) cfg lastV s =
     (case getVersion s of
        Inl e \<Rightarrow> (Threw e, s)
      | Inr version \<Rightarrow>
          (case queue_getNext (queue s) version (\<not> isPolling s) of
             NoEvent \<Rightarrow> (Returned lastV, s)
           | Blocks \<Rightarrow> (Blocked, s)
           | Got event \<Rightarrow>
               (let s1 = s\<lparr>reduxInited := True\<rparr>
                in case (case redux_dispatch cfg event s1 of
                           Inr s' \<Rightarrow> (None, s')
                         | Inl e \<Rightarrow>
                             handleResult cfg
                               (Some (event\<lparr>ev_error := JObj (obj_set (spread (ev_error event))
                                                                   ''_redux'' (err_info e)),
                                            ev_result := Some [(''metadata'',
                                              metadata_reducer (store s1 ''metadata'') event)]\<rparr>))
                               s1) of
                     (Some x, s2) \<Rightarrow> (Threw x, s2)
                   | (None, s2) \<Rightarrow>
                       if reallyStop s2 then (Returned None, s2\<lparr>reallyStop := False\<rparr>)
                       else waitForEvent fuel cfg (ev_v event) s2)))"

text \<open>
  The promise chain that \<^verbatim>\<open>startPolling\<close> stores in \<^verbatim>\<open>_waitingP\<close>:
  \<^verbatim>\<open>this._waitForEvent().catch(...).then(v => ...)\<close>. The \<^verbatim>\<open>catch\<close> reports the error and
  gives \<^verbatim>\<open>0\<close>; the \<^verbatim>\<open>then\<close> runs \<^verbatim>\<open>_waitForEvent\<close> once more when \<^verbatim>\<open>minVersion > v\<close>, and
  empties \<^verbatim>\<open>_waitingP\<close> otherwise.
\<close>

definition poll_chain :: "nat \<Rightarrow> config \<Rightarrow> esdb \<Rightarrow> loop_out \<times> esdb" where
  "poll_chain fuel cfg s =
     (let after = (\<lambda>v s1.
            if (case v of Some n \<Rightarrow> minVersion s1 > n | None \<Rightarrow> False)
            then waitForEvent fuel cfg (Some 0) (log_action WaitForEvent s1)
            else (Returned None, s1\<lparr>waitingP := False\<rparr>))
      in case waitForEvent fuel cfg (Some 0) s of
           (Returned v, s1) \<Rightarrow> after v s1
         | (Threw e, s1) \<Rightarrow> after (Some 0) (log_action (LogPollError e) s1)
         | other \<Rightarrow> other)"

text \<open>
  The constructor: it refuses a user model named \<^verbatim>\<open>metadata\<close>, opens a table for every
  model name (\<open>db\<close> gives the tables the database file already holds) and calls
  \<^verbatim>\<open>checkForEvents()\<close>, that is \<^verbatim>\<open>startPolling(1)\<close>.
\<close>

definition checkForEvents :: "esdb \<Rightarrow> esdb" where
  "checkForEvents s = startPolling 1 s"

definition new_ESDB :: "config \<Rightarrow> store \<Rightarrow> event list \<Rightarrow> err + esdb" where
  "new_ESDB cfg db q =
     (if ''metadata'' \<in> set (map fst (user_models cfg))
      then Inl (Thrown (JObj [(''message'', JStr ''metadata is a reserved model name'')]))
      else Inr (checkForEvents
        \<lparr>store = (\<lambda>name. if name \<in> set (modelNames cfg)
                          then Some (case db name of Some m \<Rightarrow> m | None \<Rightarrow> Map.empty)
                          else None),
         queue = q, waitingFor = [], promises = (\<lambda>p. Pending), next_promise = 0,
         maxWaitingFor = 0, minVersion = 0, isPolling = False, waitingP = False,
         applyingP = False, reallyStop = False, reduxInited = False, redux_state = None,
         trace = []\<rparr>))"

section \<open>The order of the apply phase\<close>

text \<open>
  The steps the specification gives for the apply phase of an event, as the calls they
  make: the metadata entry is taken out of the event's result; \<^verbatim>\<open>queue.set\<close> gets the
  event; every remaining entry of the result that holds a change is applied to its
  model; the metadata change is applied; the derivers run.
\<close>

definition strip_metadata :: "event \<Rightarrow> event" where
  "strip_metadata event =
     event\<lparr>ev_result := map_option (\<lambda>result. obj_delete result ''metadata'') (ev_result event)\<rparr>"





section \<open>The errors of the reducers\<close>

text \<open>
  The error map the specification gives for an event on which a reducer returned an
  error: each model whose output carries a truthy \<^verbatim>\<open>error\<close>, with that error.
\<close>

definition error_map :: "(string \<times> rout) list \<Rightarrow> (string \<times> jsval) list" where
  "error_map result =
     map (\<lambda>(name, r). (name, rout_error r)) (filter (\<lambda>(name, r). truthy (rout_error r)) result)"

section \<open>Example instances\<close>

text \<open>
  A small instance, used to run the definitions on concrete inputs: one user model
  \<^verbatim>\<open>counter\<close> with a reducer and a deriver, and no failing collaborator.
\<close>

definition ex_event :: event where
  "ex_event = \<lparr>ev_v = Some 2, ev_type = JStr ''inc'', ev_ts = JNum 0, ev_data = JNull,
                ev_error = JUndef, ev_result = None\<rparr>"

definition counter :: model_def where
  "counter =
     \<lparr>md_reducer = Some (\<lambda>m e. if ev_type e = JStr ''inc''
                               then RChange (empty_change\<lparr>ch_other := [(''ins'', ev_data e)]\<rparr>)
                               else RFalse),
      md_preprocessor = None, md_deriver = True\<rparr>"

definition ex_config :: config where
  "ex_config =
     \<lparr>user_models = [(''counter'', counter)], node_env_test = False, error_listener = False,
      queue_set_fault = (\<lambda>e. None), apply_fault = (\<lambda>n r. None), deriver_fault = (\<lambda>n e. None),
      listener_fault = (\<lambda>n e. None), sweep_get_fault = (\<lambda>v. None)\<rparr>"

definition blank :: esdb where
  "blank =
     \<lparr>store = Map.empty, queue = [], waitingFor = [], promises = (\<lambda>p. Pending), next_promise = 0,
      maxWaitingFor = 0, minVersion = 0, isPolling = False, waitingP = False,
      applyingP = False, reallyStop = False, reduxInited = False, redux_state = None,
      trace = []\<rparr>"

text \<open>An instance whose tables are at version \<open>n\<close>, with an empty queue.\<close>

definition at_version :: "int \<Rightarrow> esdb" where
  "at_version n =
     blank\<lparr>store := [''metadata'' \<mapsto> [''version'' \<mapsto> version_doc n], ''counter'' \<mapsto> Map.empty]\<rparr>"



text \<open>A model whose reducer refuses every event.\<close>

definition strict :: model_def where
  "strict =
     \<lparr>md_reducer = Some (\<lambda>m e. RChange (empty_change\<lparr>ch_error := JStr ''refused''\<rparr>)),
      md_preprocessor = None, md_deriver = False\<rparr>"

definition strict_config :: config where
  "strict_config = ex_config\<lparr>user_models := [(''counter'', counter), (''strict'', strict)]\<rparr>"

text \<open>
  Two preprocessors: \<^verbatim>\<open>tagger\<close> returns the event with new data, and \<^verbatim>\<open>eager\<close> returns
  what \<open>f\<close> makes of the event it is given.
\<close>

definition returning :: "(event \<Rightarrow> event) \<Rightarrow> model_def" where
  "returning f =
     \<lparr>md_reducer = None,
      md_preprocessor = Some (\<lambda>event model st. Inr (event, Some (f event))),
      md_deriver = False\<rparr>"

definition pp_config :: "(event \<Rightarrow> event) \<Rightarrow> config" where
  "pp_config f =
     ex_config\<lparr>user_models :=
       [(''tagger'', returning (\<lambda>e. e\<lparr>ev_data := JStr ''tagged''\<rparr>)), (''eager'', returning f)]\<rparr>"

definition tagged_event :: event where
  "tagged_event = ex_event\<lparr>ev_data := JStr ''tagged''\<rparr>"

definition rejecting :: "event \<Rightarrow> event" where
  "rejecting e = e\<lparr>ev_error := JStr ''bad''\<rparr>"

definition renumbering :: "event \<Rightarrow> event" where
  "renumbering e = e\<lparr>ev_v := Some 99\<rparr>"

definition untyping :: "event \<Rightarrow> event" where
  "untyping e = e\<lparr>ev_type := JStr []\<rparr>"

definition rejecting_renumbered :: "event \<Rightarrow> event" where
  "rejecting_renumbered e = e\<lparr>ev_v := Some 99, ev_error := JStr ''bad''\<rparr>"








text \<open>
  An instance built on a queue that holds the event of version 1. \<open>reuse_state\<close> is
  reached from it when \<^verbatim>\<open>handledVersion(3)\<close> registers a waiter, \<^verbatim>\<open>stopPolling()\<close> is
  called and the polling loop then handles event 1 and stops: the waiter for version 3
  is still registered and \<^verbatim>\<open>_waitingP\<close> is empty.
\<close>

definition started :: esdb where
  "started = (case new_ESDB ex_config Map.empty [ex_event\<lparr>ev_v := Some 1\<rparr>] of Inr s \<Rightarrow> s | Inl e \<Rightarrow> blank)"

definition reuse_state :: esdb where
  "reuse_state = snd (poll_chain 5 ex_config (stopPolling (snd (handledVersion 3 started))))"

text \<open>
  A fresh instance on an empty queue; the state its polling chain ends in; and a
  \<^verbatim>\<open>dispatch\<close> made after that.
\<close>

definition idle :: esdb where
  "idle = (case new_ESDB ex_config Map.empty [] of Inr s \<Rightarrow> s | Inl e \<Rightarrow> blank)"

definition wedged :: esdb where
  "wedged = snd (poll_chain 5 ex_config idle)"

definition late_dispatch :: "answer \<times> esdb" where
  "late_dispatch = dispatch (JStr ''inc'') JNull JNull wedged"

section \<open>Properties of the metadata reducer\<close>

text \<open>
  C3. With the row \<^verbatim>\<open>{id: 'version', v: cur}\<close> stored in the metadata model and an
  event of version \<open>n\<close>, the metadata reducer returns \<^verbatim>\<open>{set: [{id: 'version', v: n}]}\<close>
  exactly when \<open>n > cur\<close>, and otherwise an error whose message is
  \<^verbatim>\<open>Current version <cur> is >= event version <n>\<close>.
\<close>

theorem metadata_reducer_version:
  assumes "m ''version'' = Some d" and "doc_v d = Some cur" and "ev_v ev = Some n"
  shows "(metadata_reducer (Some m) ev = set_version n) = (n > cur)
       \<and> metadata_reducer (Some m) ev =
           (if n > cur then RChange (empty_change\<lparr>ch_set := [\<lparr>doc_id = ''version'', doc_v = Some n, doc_fields = []\<rparr>]\<rparr>)
            else RChange (empty_change\<lparr>ch_error := JObj [(''message'',
                   JStr (''Current version '' @ show_int cur @ '' is >= event version '' @ show_int n))]\<rparr>))"
  using assms
  by (simp add: metadata_reducer_def set_version_def version_error_def version_doc_def
      show_num_def empty_change_def)

theorem metadata_reducer_version_witness:
  "metadata_reducer (Some [''version'' \<mapsto> version_doc 3]) (ex_event\<lparr>ev_v := Some 5\<rparr>) = set_version 5
   \<and> metadata_reducer (Some [''version'' \<mapsto> version_doc 3]) ex_event
       = RChange (empty_change\<lparr>ch_error :=
           JObj [(''message'', JStr ''Current version 3 is >= event version 2'')]\<rparr>)"
  using metadata_reducer_version [of "[''version'' \<mapsto> version_doc 3]" "version_doc 3" 3 "ex_event\<lparr>ev_v := Some 5\<rparr>" 5]
        metadata_reducer_version [of "[''version'' \<mapsto> version_doc 3]" "version_doc 3" 3 ex_event 2]
  by (simp add: version_doc_def ex_event_def show_int_def show_nat.simps digit_char_def)

section \<open>Properties of handleResult\<close>

text \<open>
  C10. Given an event whose \<^verbatim>\<open>v\<close> is falsy (absent or \<open>0\<close>), \<^verbatim>\<open>handleResult\<close> returns at
  once and leaves the whole state as it was: \<^verbatim>\<open>applyEvent\<close> is not called, nothing is
  emitted (the trace is unchanged) and no waiter is settled or removed.
\<close>

theorem handleResult_falsy_v:
  assumes "ev_v event = None \<or> ev_v event = Some 0"
  shows "handleResult cfg (Some event) s = (None, s)"
  using assms by (simp add: handleResult_def)

theorem handleResult_falsy_v_witness:
  "handleResult ex_config (Some (ex_event\<lparr>ev_v := Some 0\<rparr>)) (at_version 2) = (None, at_version 2)
   \<and> handleResult ex_config (Some (ex_event\<lparr>ev_v := None\<rparr>)) (at_version 2) = (None, at_version 2)"
  using handleResult_falsy_v [of "ex_event\<lparr>ev_v := Some 0\<rparr>" ex_config "at_version 2"]
        handleResult_falsy_v [of "ex_event\<lparr>ev_v := None\<rparr>" ex_config "at_version 2"]
  by simp

section \<open>Properties of handledVersion\<close>

text \<open>
  C9. For a version \<open>n\<close> with \<open>0 < n\<close> at most the applied version, when the queue has
  no row for \<open>n\<close>, \<^verbatim>\<open>handledVersion(n)\<close> reads \<^verbatim>\<open>event.error\<close> of the missing row: its
  promise rejects with a \<^verbatim>\<open>TypeError\<close>, neither resolving nor rejecting with an event.
\<close>

theorem handledVersion_missing_row:
  assumes "0 < n" and "getVersion s = Inr (Some c)" and "n \<le> c"
    and "queue_get (queue s) n = None"
  shows "handledVersion n s = (Rejects (RejErr TypeError), s)"
  using assms by (simp add: handledVersion_def)

theorem handledVersion_missing_row_witness:
  "(0::int) < 1 \<and> getVersion (at_version 2) = Inr (Some 2) \<and> (1::int) \<le> 2
   \<and> queue_get (queue (at_version 2)) 1 = None
   \<and> handledVersion 1 (at_version 2) = (Rejects (RejErr TypeError), at_version 2)"
  using handledVersion_missing_row [of 1 "at_version 2" 2]
  by (simp add: at_version_def blank_def getVersion_def queue_get_def version_doc_def)

section \<open>Properties of applyEvent\<close>
















section \<open>Properties of the reducer\<close>

lemma modelReducer_names: "map fst (modelReducer cfg st ev) = reducerNames cfg"
proof -
  have "map fst (List.map_filter (\<lambda>(name, d). map_option (\<lambda>r. (name, r (st name) ev)) (md_reducer d)) ms)
        = map fst (filter (\<lambda>(name, d). md_reducer d \<noteq> None) ms)" for ms
    by (induction ms) (auto simp: List.map_filter_simps split: option.splits)
  then show ?thesis by (simp add: modelReducer_def reducerNames_def)
qed

lemma models_distinct: "valid_config cfg \<Longrightarrow> distinct (map fst (models cfg))"
  by (auto simp: valid_config_def models_def)

lemma reducerNames_distinct: "valid_config cfg \<Longrightarrow> distinct (reducerNames cfg)"
  unfolding reducerNames_def by (rule distinct_map_filter) (rule models_distinct)

lemma modelReducer_metadata:
  assumes "valid_config cfg"
  shows "map_of (modelReducer cfg st ev) ''metadata'' = Some (metadata_reducer (st ''metadata'') ev)"
proof -
  have "map_of (List.map_filter (\<lambda>(name, d). map_option (\<lambda>r. (name, r (st name) ev)) (md_reducer d)) ms) k = None"
    if "k \<notin> fst ` set ms" for ms :: "(string \<times> model_def) list" and k
    using that by (induction ms) (auto simp: List.map_filter_simps split: option.splits)
  moreover have "List.map_filter f (xs @ ys) = List.map_filter f xs @ List.map_filter f ys" for f :: "string \<times> model_def \<Rightarrow> (string \<times> rout) option" and xs ys
    by (simp add: List.map_filter_def)
  ultimately show ?thesis
    using assms
    by (simp add: modelReducer_def models_def valid_config_def map_add_def
        List.map_filter_simps metadata_model_def)
qed

lemma hasError_entries:
  "\<forall>(n, r) \<in> set xs. map_of result n = Some r \<Longrightarrow>
     hasError (map fst xs) result = Inr (\<exists>(n, r) \<in> set xs. truthy (rout_error r))"
proof (induction xs)
  case Nil
  then show ?case by simp
next
  case (Cons a xs)
  obtain k x where a: "a = (k, x)" by (cases a)
  with Cons.prems have "map_of result k = Some x" "\<forall>(n, r) \<in> set xs. map_of result n = Some r"
    by auto
  with Cons.IH a show ?case by simp
qed

lemma collect_errors_entries:
  "\<forall>(n, r) \<in> set xs. map_of result n = Some r \<Longrightarrow>
     collect_errors (map fst xs) result = Inr (error_map xs)"
proof (induction xs)
  case Nil
  then show ?case by (simp add: error_map_def)
next
  case (Cons a xs)
  obtain k x where a: "a = (k, x)" by (cases a)
  with Cons.prems have "map_of result k = Some x" "\<forall>(n, r) \<in> set xs. map_of result n = Some r"
    by auto
  with Cons.IH a show ?case by (simp add: error_map_def)
qed

lemma error_map_lookup:
  assumes "distinct (map fst result)" and "(n, r) \<in> set result"
  shows "get_prop (JObj (error_map result)) n = (if truthy (rout_error r) then rout_error r else JUndef)"
  using assms
proof (induction result)
  case Nil
  then show ?case by simp
next
  case (Cons a result)
  obtain k x where a: "a = (k, x)" by (cases a)
  show ?case
  proof (cases "(n, r) = a")
    case True
    with a Cons.prems have "n \<notin> fst ` set result" by auto
    then have "map_of (error_map result) n = None"
      by (force simp: error_map_def map_of_eq_None_iff)
    with True a show ?thesis by (simp add: error_map_def)
  next
    case False
    with Cons.prems a have "(n, r) \<in> set result" "n \<noteq> k" "distinct (map fst result)"
      by (auto simp: rev_image_eqI)
    with Cons.IH a show ?thesis by (simp add: error_map_def)
  qed
qed

text \<open>
  C5. When preprocessing leaves an event without error and the reducer of some model
  returns an error, \<^verbatim>\<open>ESDB.reducer\<close> returns that event with: an \<^verbatim>\<open>error\<close> object that
  maps every model whose reducer returned an error to that error (and holds nothing
  for the other models), and a \<^verbatim>\<open>result\<close> whose only entry is the output of the
  metadata reducer: the result has no entry for any other model.
\<close>

theorem reducer_collects_errors:
  assumes valid: "valid_config cfg"
    and pre: "preprocessor cfg st (preprocNames cfg) original = Inr event"
    and clean: "\<not> truthy (ev_error event)"
    and errored: "(name, r) \<in> set (modelReducer cfg st event)" "truthy (rout_error r)"
  shows "reducer cfg st original =
           Inr (event\<lparr>ev_result := Some [(''metadata'', metadata_reducer (st ''metadata'') event)],
                       ev_error := JObj (error_map (modelReducer cfg st event))\<rparr>)
       \<and> get_prop (JObj (error_map (modelReducer cfg st event))) name = rout_error r
       \<and> (\<forall>(n, r') \<in> set (modelReducer cfg st event).
             get_prop (JObj (error_map (modelReducer cfg st event))) n
               = (if truthy (rout_error r') then rout_error r' else JUndef))
       \<and> (\<forall>(n, r') \<in> set (modelReducer cfg st event). n \<noteq> ''metadata'' \<longrightarrow>
             map_of [(''metadata'', metadata_reducer (st ''metadata'') event)] n = None)"
proof -
  let ?result = "modelReducer cfg st event"
  have dist: "distinct (map fst ?result)"
    using reducerNames_distinct [OF valid] by (simp add: modelReducer_names)
  then have look: "\<forall>(n, r) \<in> set ?result. map_of ?result n = Some r"
    by auto
  have names: "reducerNames cfg = map fst ?result" by (simp add: modelReducer_names)
  have he: "hasError (reducerNames cfg) ?result = Inr True"
    unfolding names using hasError_entries [of ?result ?result, OF look] errored by auto
  have ce: "collect_errors (reducerNames cfg) ?result = Inr (error_map ?result)"
    unfolding names by (rule collect_errors_entries [OF look])
  have "reducer cfg st original =
           Inr (event\<lparr>ev_result := Some [(''metadata'', metadata_reducer (st ''metadata'') event)],
                       ev_error := JObj (error_map ?result)\<rparr>)"
    using pre clean he ce modelReducer_metadata [OF valid, of st event]
    by (simp add: reducer_def Let_def)
  moreover have "\<forall>(n, r') \<in> set ?result.
             get_prop (JObj (error_map ?result)) n = (if truthy (rout_error r') then rout_error r' else JUndef)"
    using error_map_lookup [OF dist] by blast
  ultimately show ?thesis using errored error_map_lookup [OF dist errored(1)] by simp
qed


theorem reducer_collects_errors_witness:
  "reducer strict_config (store (at_version 1)) ex_event =
     Inr (ex_event\<lparr>ev_result := Some [(''metadata'', set_version 2)],
                   ev_error := JObj [(''strict'', JStr ''refused'')]\<rparr>)"
proof -
  let ?st = "store (at_version 1)"
  have mr: "modelReducer strict_config ?st ex_event =
      [(''counter'', RChange (empty_change\<lparr>ch_other := [(''ins'', JNull)]\<rparr>)),
       (''strict'', RChange (empty_change\<lparr>ch_error := JStr ''refused''\<rparr>)),
       (''metadata'', set_version 2)]"
    by (simp add: modelReducer_def models_def strict_config_def ex_config_def counter_def strict_def
        metadata_model_def List.map_filter_simps ex_event_def metadata_reducer_def at_version_def
        blank_def version_doc_def)
  have valid: "valid_config strict_config"
    by (simp add: valid_config_def strict_config_def ex_config_def)
  have pre: "preprocessor strict_config ?st (preprocNames strict_config) ex_event = Inr ex_event"
    by (simp add: preprocNames_def models_def strict_config_def ex_config_def counter_def strict_def
        metadata_model_def)
  have clean: "\<not> truthy (ev_error ex_event)" by (simp add: ex_event_def)
  have md: "metadata_reducer (?st ''metadata'') ex_event = set_version 2"
    by (simp add: metadata_reducer_def at_version_def blank_def version_doc_def ex_event_def)
  from reducer_collects_errors [OF valid pre clean, of "''strict''" "RChange (empty_change\<lparr>ch_error := JStr ''refused''\<rparr>)"]
  show ?thesis
    by (simp add: mr md error_map_def empty_change_def set_version_def)
qed

section \<open>Properties of the preprocessor\<close>

lemma continues_append:
  "continues cfg st pre original = Some event \<Longrightarrow>
     preprocessor cfg st (pre @ rest) original = preprocessor cfg st rest event"
  by (induction pre arbitrary: original) (auto split: sum.splits pp_step.splits)

lemma reducer_after_failed_preprocessing:
  "preprocessor cfg st (preprocNames cfg) original = Inr event \<Longrightarrow> truthy (ev_error event) \<Longrightarrow>
     reducer cfg st original = Inr (metadata_only st event)"
  by (simp add: reducer_def)

text \<open>
  C6, as amended. Let the preprocessors before \<open>name\<close> have run without stopping the
  loop, leaving \<open>event\<close>, and let the preprocessor of \<open>name\<close> return a new event. If the
  new event has a truthy \<^verbatim>\<open>error\<close>, preprocessing stops and yields the event the
  preprocessor was given (as the call left it, with \<^verbatim>\<open>v\<close> and \<^verbatim>\<open>type\<close> put back) with
  \<^verbatim>\<open>error = {[name]: newEvent.error}\<close>, whatever the new event's \<^verbatim>\<open>v\<close> and \<^verbatim>\<open>type\<close> are.
  If it has no truthy \<^verbatim>\<open>error\<close> and changes \<^verbatim>\<open>v\<close>, or keeps \<^verbatim>\<open>v\<close> and has a falsy
  \<^verbatim>\<open>type\<close>, preprocessing yields that event with \<^verbatim>\<open>error._preprocess\<close>, whose message
  starts with the model's name. In each case the reducer returns that error event with
  \<^verbatim>\<open>result = {metadata}\<close>, the output of the metadata reducer alone.
\<close>

theorem preprocessor_errors:
  assumes names: "preprocNames cfg = pre @ name # post"
    and before: "continues cfg st pre original = Some event"
    and pp: "Option.bind (map_of (models cfg) name) md_preprocessor = Some pp"
    and ret: "pp event (st name) st = Inr (event', Some newEvent)"
  shows "(truthy (ev_error newEvent) \<longrightarrow>
            preprocessor cfg st (preprocNames cfg) original
              = Inr (error_event event' event (JObj [(name, ev_error newEvent)]))
          \<and> reducer cfg st original
              = Inr (metadata_only st (error_event event' event (JObj [(name, ev_error newEvent)]))))
       \<and> (\<not> truthy (ev_error newEvent) \<and> ev_v newEvent \<noteq> ev_v event \<longrightarrow>
            preprocessor cfg st (preprocNames cfg) original
              = Inr (error_event event' event (JObj [(''_preprocess'',
                  JObj [(''message'', JStr (name @ '': preprocessor must retain event version''))])]))
          \<and> reducer cfg st original
              = Inr (metadata_only st (error_event event' event (JObj [(''_preprocess'',
                  JObj [(''message'', JStr (name @ '': preprocessor must retain event version''))])]))))
       \<and> (\<not> truthy (ev_error newEvent) \<and> ev_v newEvent = ev_v event \<and> \<not> truthy (ev_type newEvent) \<longrightarrow>
            preprocessor cfg st (preprocNames cfg) original
              = Inr (error_event event' event (JObj [(''_preprocess'',
                  JObj [(''message'', JStr (name @ '': preprocessor must return event type''))])]))
          \<and> reducer cfg st original
              = Inr (metadata_only st (error_event event' event (JObj [(''_preprocess'',
                  JObj [(''message'', JStr (name @ '': preprocessor must return event type''))])]))))"
proof -
  have run: "preprocessor cfg st (preprocNames cfg) original =
      (case preprocess_with cfg st name event of
         Inl e \<Rightarrow> Inl e
       | Inr (Stop x) \<Rightarrow> Inr x
       | Inr (Continue x) \<Rightarrow> preprocessor cfg st post x)"
    unfolding names using continues_append [OF before, of "name # post"] by simp
  have step: "preprocess_with cfg st name event =
      (if truthy (ev_error newEvent) then
         Inr (Stop (error_event event' event (JObj [(name, ev_error newEvent)])))
       else if ev_v newEvent \<noteq> ev_v event then
         Inr (Stop (error_event event' event (preprocess_error name ''retain event version'')))
       else if \<not> truthy (ev_type newEvent) then
         Inr (Stop (error_event event' event (preprocess_error name ''return event type'')))
       else Inr (Continue newEvent))"
    using pp ret by (simp add: preprocess_with_def)
  have t: "\<And>x. truthy x \<Longrightarrow> truthy (ev_error (error_event event' event x))"
    by (simp add: error_event_def)
  show ?thesis
    using run step reducer_after_failed_preprocessing [of cfg st original] t
    by (auto simp: preprocess_error_def)
qed


lemma pp_config_names: "preprocNames (pp_config f) = [''tagger''] @ ''eager'' # []"
  by (simp add: preprocNames_def models_def pp_config_def ex_config_def returning_def metadata_model_def)

lemma pp_config_eager:
  "Option.bind (map_of (models (pp_config f)) ''eager'') md_preprocessor
     = Some (\<lambda>event model st. Inr (event, Some (f event)))"
  by (simp add: models_def pp_config_def ex_config_def returning_def)

lemma pp_config_tagger: "continues (pp_config f) st [''tagger''] ex_event = Some tagged_event"
  by (simp add: preprocess_with_def models_def pp_config_def ex_config_def returning_def
      tagged_event_def ex_event_def)

theorem preprocessor_errors_witness:
  "reducer (pp_config rejecting) (store (at_version 1)) ex_event
     = Inr (metadata_only (store (at_version 1))
             (tagged_event\<lparr>ev_error := JObj [(''eager'', JStr ''bad'')]\<rparr>))
   \<and> reducer (pp_config renumbering) (store (at_version 1)) ex_event
     = Inr (metadata_only (store (at_version 1))
             (tagged_event\<lparr>ev_error := JObj [(''_preprocess'',
                JObj [(''message'', JStr ''eager: preprocessor must retain event version'')])]\<rparr>))
   \<and> reducer (pp_config untyping) (store (at_version 1)) ex_event
     = Inr (metadata_only (store (at_version 1))
             (tagged_event\<lparr>ev_error := JObj [(''_preprocess'',
                JObj [(''message'', JStr ''eager: preprocessor must return event type'')])]\<rparr>))"
proof -
  note at_eager = preprocessor_errors [where pre = "[''tagger'']" and name = "''eager''" and post = "[]"
      and st = "store (at_version 1)" and original = ex_event and event = tagged_event
      and event' = tagged_event, OF pp_config_names pp_config_tagger pp_config_eager]
  from at_eager [of rejecting "rejecting tagged_event"]
       at_eager [of renumbering "renumbering tagged_event"]
       at_eager [of untyping "untyping tagged_event"]
  show ?thesis
    by (simp add: rejecting_def renumbering_def untyping_def error_event_def tagged_event_def ex_event_def)
qed

text \<open>
  C6, counterexample to the claim as stated. The preprocessor \<^verbatim>\<open>eager\<close> returns a new
  event that changes \<^verbatim>\<open>v\<close> and also carries an \<^verbatim>\<open>error\<close>: preprocessing attaches the
  error under \<^verbatim>\<open>eager\<close>, and the event has no \<^verbatim>\<open>error._preprocess\<close>. (The event that
  comes back is the one \<^verbatim>\<open>tagger\<close> returned, not the original one.)
\<close>

theorem preprocessor_error_precedence_counterexample:
  "ev_v (rejecting_renumbered tagged_event) \<noteq> ev_v tagged_event
   \<and> preprocessor (pp_config rejecting_renumbered) (store (at_version 1))
        (preprocNames (pp_config rejecting_renumbered)) ex_event
      = Inr (tagged_event\<lparr>ev_error := JObj [(''eager'', JStr ''bad'')]\<rparr>)
   \<and> get_prop (JObj [(''eager'', JStr ''bad'')]) ''_preprocess'' = JUndef"
  unfolding pp_config_names
  by (simp add: preprocess_with_def models_def pp_config_def ex_config_def
      returning_def rejecting_renumbered_def tagged_event_def ex_event_def error_event_def)

section \<open>Properties of the waiters\<close>



















lemmas run_simps =
  handleResult_def applyEvent_def apply_steps_def after_apply_def triggerWaitingEvent_def
  settle_def reject_with_def outcome_def emit_def log_action_def queue_set_def queue_get_def
  obj_delete_def applyChanges_def deriverNames_def models_def metadata_model_def Let_def
  ex_config_def counter_def ex_event_def at_version_def blank_def set_version_def
  version_doc_def empty_change_def strip_metadata_def AList.delete_eq



section \<open>A failing apply phase\<close>

















section \<open>Properties of polling and of the waiter registry\<close>

lemmas poll_simps =
  new_ESDB_def checkForEvents_def startPolling_def stopPolling_def handledVersion_def
  poll_chain_def getVersion_def queue_getNext_def later_than_def redux_dispatch_def
  reducer_def preprocNames_def reducerNames_def modelNames_def modelReducer_def
  metadata_reducer_def metadata_only_def

lemma reuse_state_fields:
  "getVersion reuse_state = Inr (Some 1)"
  "waitingFor reuse_state = [(3, 0)]"
  "waitingP reuse_state = False"
  "promises reuse_state 0 = Pending"
  "next_promise reuse_state = 1"
  "maxWaitingFor reuse_state = 3"
  "minVersion reuse_state = 3"
  "queue_get (queue reuse_state) 1 = Some (ex_event\<lparr>ev_v := Some 1, ev_result := Some [(''counter'', RChange (empty_change\<lparr>ch_other := [(''ins'', JNull)]\<rparr>))]\<rparr>)"
  by (simp_all add: reuse_state_def started_def poll_simps run_simps numeral_eq_Suc)

text \<open>
  C2, as amended. \<^verbatim>\<open>handledVersion(0)\<close> resolves at once. For \<open>n \<noteq> 0\<close> at most the
  applied version, with the row of \<open>n\<close> in the queue, it rejects with the row when the
  row has an error and resolves with it otherwise. For \<open>n\<close> above the applied version:
  if a waiter is registered for \<open>n\<close>, its promise is returned and nothing else happens
  (\<^verbatim>\<open>_maxWaitingFor\<close> is not touched and \<^verbatim>\<open>startPolling\<close> is not called); if none is, a
  waiter with a new pending promise is registered, \<^verbatim>\<open>_maxWaitingFor\<close> is raised to
  \<open>n\<close> at least, \<^verbatim>\<open>startPolling(n)\<close> is called (so \<^verbatim>\<open>minVersion\<close> is \<open>n\<close> at least and
  \<^verbatim>\<open>_waitingP\<close> is set), and the new promise is returned.
\<close>

theorem handledVersion_cases:
  assumes version: "getVersion s = Inr (Some c)"
  shows "handledVersion 0 s = (Resolves None, s)
       \<and> (n \<noteq> 0 \<and> n \<le> c \<longrightarrow>
            (\<forall>event. queue_get (queue s) n = Some event \<longrightarrow>
               handledVersion n s =
                 (if truthy (ev_error event) then Rejects (RejEvent event) else Resolves (Some event), s)))
       \<and> (n \<noteq> 0 \<and> c < n \<longrightarrow>
            (\<forall>p. map_of (waitingFor s) n = Some p \<longrightarrow> handledVersion n s = (WaiterPromise p, s))
          \<and> (map_of (waitingFor s) n = None \<longrightarrow>
               handledVersion n s =
                 (WaiterPromise (next_promise s),
                  startPolling n
                    (s\<lparr>maxWaitingFor := max n (maxWaitingFor s),
                       waitingFor := waitingFor s @ [(n, next_promise s)],
                       promises := (promises s)(next_promise s := Pending),
                       next_promise := Suc (next_promise s)\<rparr>))
             \<and> map_of (waitingFor (snd (handledVersion n s))) n = Some (next_promise s)
             \<and> promises (snd (handledVersion n s)) (next_promise s) = Pending
             \<and> n \<le> maxWaitingFor (snd (handledVersion n s))
             \<and> n \<le> minVersion (snd (handledVersion n s))
             \<and> waitingP (snd (handledVersion n s))))"
proof -
  have zero: "handledVersion 0 s = (Resolves None, s)"
    by (simp add: handledVersion_def)
  have row: "handledVersion n s =
                 (if truthy (ev_error event) then Rejects (RejEvent event) else Resolves (Some event), s)"
    if "n \<noteq> 0" "n \<le> c" "queue_get (queue s) n = Some event" for event
    using that version by (simp add: handledVersion_def)
  have reuse: "handledVersion n s = (WaiterPromise p, s)"
    if "n \<noteq> 0" "c < n" "map_of (waitingFor s) n = Some p" for p
    using that version by (simp add: handledVersion_def)
  define s2 where "s2 = s\<lparr>maxWaitingFor := max n (maxWaitingFor s),
                       waitingFor := waitingFor s @ [(n, next_promise s)],
                       promises := (promises s)(next_promise s := Pending),
                       next_promise := Suc (next_promise s)\<rparr>"
  have new: "handledVersion n s = (WaiterPromise (next_promise s), startPolling n s2)"
    if "n \<noteq> 0" "c < n" "map_of (waitingFor s) n = None"
    using that version by (simp add: handledVersion_def s2_def Let_def max_def)
  have after: "map_of (waitingFor (startPolling n s2)) n = Some (next_promise s)
             \<and> promises (startPolling n s2) (next_promise s) = Pending
             \<and> n \<le> maxWaitingFor (startPolling n s2)
             \<and> n \<le> minVersion (startPolling n s2)
             \<and> waitingP (startPolling n s2)"
    if "n \<noteq> 0" "map_of (waitingFor s) n = None"
    using that by (simp add: startPolling_def s2_def Let_def log_action_def map_add_def)
  show ?thesis
    using zero row reuse new after unfolding s2_def by simp
qed


theorem handledVersion_cases_witness:
  "handledVersion 0 reuse_state = (Resolves None, reuse_state)
   \<and> handledVersion 1 reuse_state
       = (Resolves (Some (ex_event\<lparr>ev_v := Some 1,
            ev_result := Some [(''counter'', RChange (empty_change\<lparr>ch_other := [(''ins'', JNull)]\<rparr>))]\<rparr>)),
          reuse_state)
   \<and> handledVersion 3 reuse_state = (WaiterPromise 0, reuse_state)
   \<and> fst (handledVersion 4 reuse_state) = WaiterPromise 1
   \<and> map_of (waitingFor (snd (handledVersion 4 reuse_state))) 4 = Some 1
   \<and> 4 \<le> maxWaitingFor (snd (handledVersion 4 reuse_state))
   \<and> 4 \<le> minVersion (snd (handledVersion 4 reuse_state))
   \<and> waitingP (snd (handledVersion 4 reuse_state))"
proof -
  note cases = handledVersion_cases [OF reuse_state_fields(1)]
  let ?row = "ex_event\<lparr>ev_v := Some 1,
            ev_result := Some [(''counter'', RChange (empty_change\<lparr>ch_other := [(''ins'', JNull)]\<rparr>))]\<rparr>"
  have r0: "handledVersion 0 reuse_state = (Resolves None, reuse_state)"
    using cases [of 0] by blast
  have "(1::int) \<noteq> 0 \<and> (1::int) \<le> 1" by simp
  with cases [of 1] reuse_state_fields(8)
  have "handledVersion 1 reuse_state =
          (if truthy (ev_error ?row) then Rejects (RejEvent ?row) else Resolves (Some ?row), reuse_state)"
    by blast
  then have r1: "handledVersion 1 reuse_state = (Resolves (Some ?row), reuse_state)"
    by (simp add: ex_event_def)
  have "(3::int) \<noteq> 0 \<and> (1::int) < 3" "map_of (waitingFor reuse_state) 3 = Some 0"
    by (simp_all add: reuse_state_fields)
  with cases [of 3] have r3: "handledVersion 3 reuse_state = (WaiterPromise 0, reuse_state)"
    by blast
  have pre: "(4::int) \<noteq> 0 \<and> (1::int) < 4" "map_of (waitingFor reuse_state) 4 = None"
    by (simp_all add: reuse_state_fields)
  from cases [of 4] pre
  have "fst (handledVersion 4 reuse_state) = WaiterPromise (next_promise reuse_state)"
    by simp
  then have r4: "fst (handledVersion 4 reuse_state) = WaiterPromise 1"
    by (simp add: reuse_state_fields)
  from cases [of 4] pre
  have "map_of (waitingFor (snd (handledVersion 4 reuse_state))) 4 = Some (next_promise reuse_state)
      \<and> 4 \<le> maxWaitingFor (snd (handledVersion 4 reuse_state))
      \<and> 4 \<le> minVersion (snd (handledVersion 4 reuse_state))
      \<and> waitingP (snd (handledVersion 4 reuse_state))"
    by blast
  then have r5: "map_of (waitingFor (snd (handledVersion 4 reuse_state))) 4 = Some 1
      \<and> 4 \<le> maxWaitingFor (snd (handledVersion 4 reuse_state))
      \<and> 4 \<le> minVersion (snd (handledVersion 4 reuse_state))
      \<and> waitingP (snd (handledVersion 4 reuse_state))"
    by (simp add: reuse_state_fields)
  from r0 r1 r3 r4 r5 show ?thesis by blast
qed

text \<open>
  C2, counterexample to the claim as stated. In \<open>reuse_state\<close> a waiter for version 3
  is registered, the applied version is 1 and \<^verbatim>\<open>_waitingP\<close> is empty.
  \<^verbatim>\<open>handledVersion(3)\<close> returns the waiter's promise and leaves the state as it is: it
  does not call \<^verbatim>\<open>startPolling(3)\<close>, which would have called \<^verbatim>\<open>_waitForEvent\<close> and set
  \<^verbatim>\<open>_waitingP\<close>.
\<close>

theorem handledVersion_reuse_counterexample:
  "getVersion reuse_state = Inr (Some 1)
   \<and> map_of (waitingFor reuse_state) 3 = Some 0
   \<and> \<not> waitingP reuse_state
   \<and> handledVersion 3 reuse_state = (WaiterPromise 0, reuse_state)
   \<and> trace (startPolling 3 reuse_state) = trace reuse_state @ [WaitForEvent]
   \<and> waitingP (startPolling 3 reuse_state)"
  by (simp add: reuse_state_fields handledVersion_def startPolling_def log_action_def)


text \<open>
  C8, the code at an input where the claim fails. On an empty queue the constructor's
  \<^verbatim>\<open>startPolling(1)\<close> sets \<^verbatim>\<open>minVersion\<close> to 1; the first loop run returns 0, so a second
  run is started; it returns 0 as well, and then nothing more runs although
  \<^verbatim>\<open>minVersion > 0\<close> still holds, and \<^verbatim>\<open>_waitingP\<close> stays set. A \<^verbatim>\<open>dispatch\<close> made
  afterwards registers a waiter for version 1 and calls \<^verbatim>\<open>startPolling(1)\<close>, which calls
  \<^verbatim>\<open>_waitForEvent\<close> no more: the event stays unhandled in the queue and the waiter
  pending.
\<close>

theorem polling_wedge:
  "minVersion idle = 1 \<and> waitingP idle \<and> trace idle = [WaitForEvent]
   \<and> fst (poll_chain 5 ex_config idle) = Returned (Some 0)
   \<and> trace wedged = [WaitForEvent, WaitForEvent]
   \<and> minVersion wedged = 1 \<and> waitingP wedged
   \<and> fst late_dispatch = WaiterPromise 0
   \<and> map_of (waitingFor (snd late_dispatch)) 1 = Some 0
   \<and> promises (snd late_dispatch) 0 = Pending
   \<and> trace (snd late_dispatch) = [WaitForEvent, WaitForEvent]
   \<and> getVersion (snd late_dispatch) = Inr (Some 0)
   \<and> queue_getNext (queue (snd late_dispatch)) (Some 0) True
       = Got \<lparr>ev_v = Some 1, ev_type = JStr ''inc'', ev_ts = JNull, ev_data = JNull,
               ev_error = JUndef, ev_result = None\<rparr>"
  by (simp add: late_dispatch_def wedged_def idle_def dispatch_def queue_add_def queue_latest_def
      poll_simps run_simps numeral_eq_Suc)

end
